theory Spec2Isabelle
  imports Main "HOL-Library.Sublist"
begin

section \<open>Data model\<close>

text \<open>
  The \<open>Character\<close> interface of the component: \<open>id\<close>, \<open>name\<close>, \<open>image\<close>, \<open>episode\<close>.
  The fields \<open>id\<close> and \<open>image\<close> carry a suffix because HOL already has constants of
  these names. Ids are JSON numbers compared with \<open>===\<close>; they are modelled as integers.
\<close>

record character =
  id_c :: int
  name :: string
  image_c :: string
  episode :: "string list"

text \<open>
  A JavaScript number as far as \<open>highlightedIndex\<close> can take it: an integer, or \<open>NaN\<close>
  (the value of \<open>x % 0\<close>). The loss of precision beyond \<open>2^53\<close> is not modelled.
\<close>

datatype jsnum = Num int | NaN

text \<open>The three toast texts of the component, named by their transliteration.\<close>

datatype message = Basariyla_kaldirildi | Basariyla_eklendi | Lutfen_tekrar_deneyiniz

datatype toast = ToastSuccess message | ToastError message

datatype key = ArrowDown | ArrowUp | Enter | OtherKey

text \<open>
  A \<open>TypeError\<close> raised inside an event handler leaves the state as it is; one raised
  while rendering unmounts the component.
\<close>

datatype js_error = HandlerTypeError | RenderTypeError

text \<open>
  The seven \<open>useState\<close> cells of \<open>CharacterSearch\<close>, and the toasts emitted so far
  (the side channel of \<open>react-toastify\<close>).
\<close>

record state =
  query :: string
  characters :: "character list"
  loading :: bool
  highlightedIndex :: jsnum
  selectedCharacters :: "character list"
  addedCharacters :: "character list"
  error :: "string option"
  toasts :: "toast list"

definition initial :: state where
  "initial = \<lparr>query = [], characters = [], loading = False, highlightedIndex = Num 0,
     selectedCharacters = [], addedCharacters = [], error = None, toasts = []\<rparr>"

section \<open>JavaScript arithmetic and indexing\<close>

text \<open>\<open>a % n\<close> for an array length \<open>n\<close>: the remainder has the sign of the dividend, and
  \<open>a % 0\<close> is \<open>NaN\<close>.\<close>

fun js_rem :: "jsnum \<Rightarrow> nat \<Rightarrow> jsnum" where
  "js_rem NaN n = NaN"
| "js_rem (Num a) n = (if n = 0 then NaN else Num (sgn a * (\<bar>a\<bar> mod int n)))"

fun js_add :: "jsnum \<Rightarrow> int \<Rightarrow> jsnum" where
  "js_add NaN k = NaN"
| "js_add (Num a) k = Num (a + k)"

text \<open>\<open>xs[i]\<close>: \<open>undefined\<close> (here \<open>None\<close>) for a negative index, an index beyond the end
  and \<open>NaN\<close>.\<close>

fun js_index :: "'a list \<Rightarrow> jsnum \<Rightarrow> 'a option" where
  "js_index xs NaN = None"
| "js_index xs (Num a) = (if 0 \<le> a \<and> a < int (length xs) then Some (xs ! nat a) else None)"

section \<open>The handlers of CharacterSearch\<close>

text \<open>\<open>xs.some((c) => c.id === ch.id)\<close>\<close>

definition some_id :: "character list \<Rightarrow> character \<Rightarrow> bool" where
  "some_id xs ch = list_ex (\<lambda>c. id_c c = id_c ch) xs"

definition handleInputChange :: "string \<Rightarrow> state \<Rightarrow> state" where
  "handleInputChange v s = s\<lparr>query := v\<rparr>"

text \<open>
  \<open>handleSelectCharacter\<close>. The argument is \<open>None\<close> when the caller passes \<open>undefined\<close>
  (\<open>characters[highlightedIndex]\<close> out of range). Then \<open>character.id\<close> raises inside the
  callback of \<open>find\<close>; with no selected character the callback never runs, \<open>undefined\<close> is
  appended to \<open>selectedCharacters\<close>, and the next render raises at \<open>character.id\<close>.
\<close>

fun handleSelectCharacter :: "character option \<Rightarrow> state \<Rightarrow> js_error + state" where
  "handleSelectCharacter None s =
     (if selectedCharacters s = [] then Inl RenderTypeError else Inl HandlerTypeError)"
| "handleSelectCharacter (Some ch) s =
     Inr ((if \<not> some_id (selectedCharacters s) ch
           then s\<lparr>selectedCharacters := selectedCharacters s @ [ch]\<rparr> else s)
          \<lparr>query := [], characters := []\<rparr>)"

definition handleRemoveCharacter :: "int \<Rightarrow> state \<Rightarrow> state" where
  "handleRemoveCharacter i s =
     s\<lparr>selectedCharacters := filter (\<lambda>c. id_c c \<noteq> i) (selectedCharacters s)\<rparr>"

definition handleRemoveCharacterList :: "int \<Rightarrow> state \<Rightarrow> state" where
  "handleRemoveCharacterList i s =
     s\<lparr>addedCharacters := filter (\<lambda>c. id_c c \<noteq> i) (addedCharacters s),
       toasts := toasts s @ [ToastSuccess Basariyla_kaldirildi]\<rparr>"

definition uniqueCharacters :: "state \<Rightarrow> character list" where
  "uniqueCharacters s =
     filter (\<lambda>ch. \<not> some_id (addedCharacters s) ch) (selectedCharacters s)"

definition handleAddCharacters :: "state \<Rightarrow> state" where
  "handleAddCharacters s =
     (if length (uniqueCharacters s) > 0
      then s\<lparr>addedCharacters := addedCharacters s @ uniqueCharacters s,
             selectedCharacters := [],
             toasts := toasts s @ [ToastSuccess Basariyla_eklendi]\<rparr>
      else s\<lparr>toasts := toasts s @ [ToastError Lutfen_tekrar_deneyiniz]\<rparr>)"

fun handleKeyDown :: "key \<Rightarrow> state \<Rightarrow> js_error + state" where
  "handleKeyDown ArrowDown s =
     Inr (s\<lparr>highlightedIndex := js_rem (js_add (highlightedIndex s) 1) (length (characters s))\<rparr>)"
| "handleKeyDown ArrowUp s =
     Inr (s\<lparr>highlightedIndex :=
            (if highlightedIndex s = Num 0 then Num (int (length (characters s)) - 1)
             else js_add (highlightedIndex s) (- 1))\<rparr>)"
| "handleKeyDown Enter s =
     (if length (characters s) > 0
      then handleSelectCharacter (js_index (characters s) (highlightedIndex s)) s
      else Inr s)"
| "handleKeyDown OtherKey s = Inr s"

text \<open>\<open>onMouseEnter\<close> of the list item at \<open>index\<close>.\<close>

definition handleMouseEnter :: "nat \<Rightarrow> state \<Rightarrow> state" where
  "handleMouseEnter index s = s\<lparr>highlightedIndex := Num (int index)\<rparr>"

text \<open>The results list is rendered under \<open>!loading && !error && characters.length > 0\<close>.\<close>

definition results_visible :: "state \<Rightarrow> bool" where
  "results_visible s = (\<not> loading s \<and> error s = None \<and> length (characters s) > 0)"

section \<open>The effect and the fetch callbacks\<close>

text \<open>
  The \<open>.then\<close> callback of the effect. \<open>captured\<close> is the \<open>selectedCharacters\<close> of the
  render that issued the request (the closure's value), \<open>data\<close> what the fetcher returned.
\<close>

definition fetch_then :: "character list \<Rightarrow> character list \<Rightarrow> state \<Rightarrow> state" where
  "fetch_then captured data s =
     s\<lparr>characters := filter (\<lambda>ch. \<not> some_id captured ch) data, loading := False\<rparr>"

text \<open>The \<open>.catch\<close> callback.\<close>

definition fetch_catch :: "state \<Rightarrow> state" where
  "fetch_catch s = s\<lparr>loading := False, error := Some ''Error fetching characters''\<rparr>"

text \<open>
  A configuration is the component state with the requests in flight, each one the
  \<open>selectedCharacters\<close> its callback has captured.
\<close>

type_synonym config = "state \<times> character list list"

text \<open>The body of \<open>useEffect\<close>, up to the call of the fetcher.\<close>

fun useEffect :: "config \<Rightarrow> config" where
  "useEffect (s, pending) =
     (if query s \<noteq> []
      then (s\<lparr>loading := True, error := None\<rparr>, pending @ [selectedCharacters s])
      else (s\<lparr>characters := []\<rparr>, pending))"

section \<open>Rendering the results list\<close>

text \<open>
  \<open>highlightQuery(text, query)\<close> is called for the name of every candidate of the rendered
  results list. It builds \<open>new RegExp(`(${query})`, "gi")\<close> from the raw query and splits
  the text by it. The call raises a \<open>SyntaxError\<close> when \<open>(query)\<close> is not a pattern, and a
  \<open>TypeError\<close> at \<open>part.toLowerCase()\<close> when the split leaves \<open>undefined\<close> for a group of
  the query that took no part in a match. Which texts and queries do so is decided by the
  regular-expression engine, not by this component: \<open>engine text q\<close> says that the call
  returns. For a query of letters, digits and spaces the pattern is valid and has the one
  group, so the call returns with every engine.
\<close>

type_synonym engine = "string \<Rightarrow> string \<Rightarrow> bool"

definition plain_char :: "char \<Rightarrow> bool" where
  "plain_char c =
     (c \<in> set ''abcdefghijklmnopqrstuvwxyzABCDEFGHIJKLMNOPQRSTUVWXYZ0123456789 '')"

definition plain :: "string \<Rightarrow> bool" where
  "plain q = list_all plain_char q"

definition highlightQuery_returns :: "engine \<Rightarrow> string \<Rightarrow> string \<Rightarrow> bool" where
  "highlightQuery_returns engine text q = (plain q \<or> engine text q)"

text \<open>The render of a state returns: the results list is not rendered, or \<open>highlightQuery\<close>
  returns for every candidate.\<close>

definition render_ok :: "engine \<Rightarrow> state \<Rightarrow> bool" where
  "render_ok engine s =
     (if results_visible s
      then list_all (\<lambda>ch. highlightQuery_returns engine (name ch) (query s)) (characters s)
      else True)"

text \<open>A configuration is rendered; an error while rendering unmounts the component
  (\<open>None\<close>).\<close>

definition shown :: "engine \<Rightarrow> config \<Rightarrow> config option" where
  "shown engine c = (if render_ok engine (fst c) then Some c else None)"

text \<open>
  The state \<open>s'\<close> that a handler has set is rendered; then the effect runs if \<open>query\<close> or
  \<open>selectedCharacters\<close> changed in this render, and what the effect has set is rendered.
\<close>

definition rerender :: "engine \<Rightarrow> state \<Rightarrow> state \<Rightarrow> character list list \<Rightarrow> config option" where
  "rerender engine s s' pending =
     (if render_ok engine s'
      then (if query s' \<noteq> query s \<or> selectedCharacters s' \<noteq> selectedCharacters s
            then shown engine (useEffect (s', pending)) else Some (s', pending))
      else None)"

section \<open>Events\<close>

datatype event =
    InputChange string
  | KeyDown key
  | MouseEnter nat
  | Click nat
  | AddClick
  | RemoveSelected int
  | RemoveAdded int
  | FetchResolved nat "character list"
  | FetchRejected nat

definition remove_nth :: "nat \<Rightarrow> 'a list \<Rightarrow> 'a list" where
  "remove_nth k xs = take k xs @ drop (Suc k) xs"

text \<open>
  One event of the UI loop, with the renders that follow it. \<open>None\<close>: the event cannot
  happen in this configuration (the element is not rendered, no such request is in
  flight) or the component has been unmounted by an error while rendering.
\<close>

fun step :: "engine \<Rightarrow> config \<Rightarrow> event \<Rightarrow> config option" where
  "step engine (s, pending) (InputChange v) = rerender engine s (handleInputChange v s) pending"
| "step engine (s, pending) (KeyDown k) =
     (case handleKeyDown k s of
        Inl HandlerTypeError \<Rightarrow> Some (s, pending)
      | Inl RenderTypeError \<Rightarrow> None
      | Inr s' \<Rightarrow> rerender engine s s' pending)"
| "step engine (s, pending) (MouseEnter i) =
     (if results_visible s \<and> i < length (characters s)
      then shown engine (handleMouseEnter i s, pending) else None)"
| "step engine (s, pending) (Click i) =
     (if results_visible s \<and> i < length (characters s)
      then (case handleSelectCharacter (Some (characters s ! i)) s of
              Inl e \<Rightarrow> None
            | Inr s' \<Rightarrow> rerender engine s s' pending)
      else None)"
| "step engine (s, pending) AddClick = rerender engine s (handleAddCharacters s) pending"
| "step engine (s, pending) (RemoveSelected i) =
     (if i \<in> set (map id_c (selectedCharacters s))
      then rerender engine s (handleRemoveCharacter i s) pending else None)"
| "step engine (s, pending) (RemoveAdded i) =
     (if i \<in> set (map id_c (addedCharacters s))
      then shown engine (handleRemoveCharacterList i s, pending) else None)"
| "step engine (s, pending) (FetchResolved k data) =
     (if k < length pending
      then shown engine (fetch_then (pending ! k) data s, remove_nth k pending) else None)"
| "step engine (s, pending) (FetchRejected k) =
     (if k < length pending
      then shown engine (fetch_catch s, remove_nth k pending) else None)"

fun run :: "engine \<Rightarrow> config \<Rightarrow> event list \<Rightarrow> config option" where
  "run engine c [] = Some c"
| "run engine c (e # es) =
     (case step engine c e of None \<Rightarrow> None | Some c' \<Rightarrow> run engine c' es)"

text \<open>The configurations the mounted component can be in.\<close>

definition reachable :: "engine \<Rightarrow> config \<Rightarrow> bool" where
  "reachable engine c = (\<exists>es. run engine (initial, []) es = Some c)"

text \<open>The highlight index points into the candidate list.\<close>

fun in_range :: "jsnum \<Rightarrow> nat \<Rightarrow> bool" where
  "in_range NaN n = False"
| "in_range (Num a) n = (0 \<le> a \<and> a < int n)"

section \<open>The query fetcher\<close>

text \<open>What \<open>response.json()\<close> can resolve to. Numbers are modelled as integers; zero is
  the falsy one.\<close>

datatype json =
    JNull
  | JBool bool
  | JNum int
  | JString string
  | JArray "json list"
  | JObject "(string \<times> json) list"

text \<open>
  What the network gives for a URL: \<open>fetch\<close> rejects, \<open>response.json()\<close> rejects
  (the body is not JSON), or the body parses.
\<close>

datatype response = NetworkFailure | InvalidJson | Body json

datatype fetch_error = FetchFailed | JsonSyntaxError | NullPropertyTypeError

definition request_url :: "string \<Rightarrow> string" where
  "request_url q = ''https://rickandmortyapi.com/api/character/?name='' @ q"

text \<open>The truth value of a JSON value under \<open>||\<close>.\<close>

fun truthy :: "json \<Rightarrow> bool" where
  "truthy JNull = False"
| "truthy (JBool b) = b"
| "truthy (JNum n) = (n \<noteq> 0)"
| "truthy (JString s) = (s \<noteq> [])"
| "truthy (JArray xs) = True"
| "truthy (JObject kvs) = True"

text \<open>
  \<open>data.results\<close>: a \<open>TypeError\<close> on \<open>null\<close>, the member of an object (the last one
  of a repeated key, as \<open>JSON.parse\<close> keeps it), \<open>undefined\<close> (here \<open>None\<close>) otherwise.
\<close>

fun get_results :: "json \<Rightarrow> fetch_error + json option" where
  "get_results JNull = Inl NullPropertyTypeError"
| "get_results (JObject kvs) = Inr (map_of (rev kvs) ''results'')"
| "get_results d = Inr None"

text \<open>\<open>fetchDataHelper\<close> of \<open>helpers/fetchDataHepler.ts\<close>; every error caught is thrown
  again.\<close>

definition fetchDataHelper :: "(string \<Rightarrow> response) \<Rightarrow> string \<Rightarrow> fetch_error + json" where
  "fetchDataHelper net q =
     (case net (request_url q) of
        NetworkFailure \<Rightarrow> Inl FetchFailed
      | InvalidJson \<Rightarrow> Inl JsonSyntaxError
      | Body d \<Rightarrow>
          (case get_results d of
             Inl e \<Rightarrow> Inl e
           | Inr None \<Rightarrow> Inr (JArray [])
           | Inr (Some r) \<Rightarrow> if truthy r then Inr r else Inr (JArray [])))"

text \<open>\<open>fetchCharacters\<close> of the component: the same body.\<close>

definition fetchCharacters :: "(string \<Rightarrow> response) \<Rightarrow> string \<Rightarrow> fetch_error + json" where
  "fetchCharacters net q =
     (case net (request_url q) of
        NetworkFailure \<Rightarrow> Inl FetchFailed
      | InvalidJson \<Rightarrow> Inl JsonSyntaxError
      | Body d \<Rightarrow>
          (case get_results d of
             Inl e \<Rightarrow> Inl e
           | Inr None \<Rightarrow> Inr (JArray [])
           | Inr (Some r) \<Rightarrow> if truthy r then Inr r else Inr (JArray [])))"

section \<open>Sample data\<close>

definition rick :: character where
  "rick = \<lparr>id_c = 1, name = ''Rick Sanchez'', image_c = ''1.jpeg'', episode = [''S01E01'']\<rparr>"

definition morty :: character where
  "morty = \<lparr>id_c = 2, name = ''Morty Smith'', image_c = ''2.jpeg'', episode = [''S01E01'']\<rparr>"

text \<open>A network that gives the same response for every URL.\<close>

definition answers :: "response \<Rightarrow> string \<Rightarrow> response" where
  "answers r url = r"

definition summer :: character where
  "summer = \<lparr>id_c = 3, name = ''Summer Smith'', image_c = ''3.jpeg'', episode = [''S01E06'']\<rparr>"

text \<open>Rick has been added; a new query is in flight.\<close>

definition added_rick_loading :: state where
  "added_rick_loading = \<lparr>query = ''ri'', characters = [], loading = True,
     highlightedIndex = Num 0, selectedCharacters = [], addedCharacters = [rick],
     error = None, toasts = [ToastSuccess Basariyla_eklendi]\<rparr>"

text \<open>The query has answered with Rick.\<close>

definition added_rick_listed :: state where
  "added_rick_listed = \<lparr>query = ''ri'', characters = [rick], loading = False,
     highlightedIndex = Num 0, selectedCharacters = [], addedCharacters = [rick],
     error = None, toasts = [ToastSuccess Basariyla_eklendi]\<rparr>"

text \<open>Rick has been picked again.\<close>

definition rick_in_both :: state where
  "rick_in_both = \<lparr>query = [], characters = [], loading = False,
     highlightedIndex = Num 0, selectedCharacters = [rick], addedCharacters = [rick],
     error = None, toasts = [ToastSuccess Basariyla_eklendi]\<rparr>"

text \<open>A list of two was answered, the highlight moved to its second entry, and the next
  query answered with a list of one.\<close>

definition stale_highlight :: state where
  "stale_highlight = \<lparr>query = ''ri'', characters = [rick], loading = False,
     highlightedIndex = Num 1, selectedCharacters = [], addedCharacters = [],
     error = None, toasts = []\<rparr>"

text \<open>The same, with Morty selected before.\<close>

definition stale_highlight_morty :: state where
  "stale_highlight_morty = \<lparr>query = ''ri'', characters = [rick], loading = False,
     highlightedIndex = Num 1, selectedCharacters = [morty], addedCharacters = [],
     error = None, toasts = []\<rparr>"

text \<open>A query has answered with Rick and the next request has failed.\<close>

definition failed_after_rick :: state where
  "failed_after_rick = \<lparr>query = ''rx'', characters = [rick], loading = False,
     highlightedIndex = Num 0, selectedCharacters = [], addedCharacters = [],
     error = Some ''Error fetching characters'', toasts = []\<rparr>"

text \<open>A list of two is shown.\<close>

definition two_listed :: state where
  "two_listed = \<lparr>query = ''r'', characters = [rick, morty], loading = False,
     highlightedIndex = Num 0, selectedCharacters = [], addedCharacters = [],
     error = None, toasts = []\<rparr>"

text \<open>Rick has been picked from the list.\<close>

definition rick_selected :: state where
  "rick_selected = \<lparr>query = [], characters = [], loading = False,
     highlightedIndex = Num 0, selectedCharacters = [rick], addedCharacters = [],
     error = None, toasts = []\<rparr>"

text \<open>A query has answered with Rick and the next request is in flight.\<close>

definition rick_listed_loading :: state where
  "rick_listed_loading = \<lparr>query = ''rx'', characters = [rick], loading = True,
     highlightedIndex = Num 0, selectedCharacters = [], addedCharacters = [],
     error = None, toasts = []\<rparr>"

text \<open>A list of two is shown, its second entry highlighted, and the next query is in
  flight.\<close>

definition second_highlighted_loading :: state where
  "second_highlighted_loading = \<lparr>query = ''ri'', characters = [rick, morty], loading = True,
     highlightedIndex = Num 1, selectedCharacters = [], addedCharacters = [],
     error = None, toasts = []\<rparr>"

text \<open>ArrowDown was pressed before the first query, which then answered with Rick.\<close>

definition nan_highlight :: state where
  "nan_highlight = \<lparr>query = ''r'', characters = [rick], loading = False,
     highlightedIndex = NaN, selectedCharacters = [], addedCharacters = [],
     error = None, toasts = []\<rparr>"

text \<open>The engine with which \<open>highlightQuery\<close> returns for the plain queries only.\<close>

definition plain_only :: engine where
  "plain_only text q = False"

section \<open>Uniqueness by id within each collection\<close>

definition unique_ids :: "state \<Rightarrow> bool" where
  "unique_ids s \<longleftrightarrow>
     distinct (map id_c (selectedCharacters s)) \<and> distinct (map id_c (addedCharacters s))"

section \<open>Evaluation of the sample runs\<close>

lemmas model_defs = initial_def rerender_def handleInputChange_def fetch_then_def fetch_catch_def
  remove_nth_def some_id_def handleMouseEnter_def results_visible_def handleAddCharacters_def
  uniqueCharacters_def handleRemoveCharacter_def handleRemoveCharacterList_def
  shown_def render_ok_def highlightQuery_returns_def plain_def plain_char_def

lemmas sample_defs = rick_def morty_def summer_def added_rick_loading_def added_rick_listed_def
  rick_in_both_def stale_highlight_def stale_highlight_morty_def failed_after_rick_def
  two_listed_def rick_selected_def rick_listed_loading_def second_highlighted_loading_def
  nan_highlight_def

text \<open>The queries of the sample runs are plain, so the runs are those of every engine.\<close>

lemma reachableI: "run engine (initial, []) es = Some c \<Longrightarrow> reachable engine c"
  unfolding reachable_def by blast

lemma run_added_rick_loading:
  "run engine (initial, []) [InputChange ''r'', FetchResolved 0 [rick], Click 0, AddClick,
     InputChange ''ri''] = Some (added_rick_loading, [[]])"
  by (simp add: model_defs sample_defs)

lemma run_rick_in_both:
  "run engine (initial, []) [InputChange ''r'', FetchResolved 0 [rick], Click 0, AddClick,
     InputChange ''ri'', FetchResolved 0 [rick], Click 0] = Some (rick_in_both, [])"
  by (simp add: model_defs sample_defs)

lemma run_stale_highlight:
  "run engine (initial, []) [InputChange ''r'', FetchResolved 0 [rick, morty], KeyDown ArrowDown,
     InputChange ''ri'', FetchResolved 0 [rick]] = Some (stale_highlight, [])"
  by (simp add: model_defs sample_defs)

lemma run_stale_highlight_morty:
  "run engine (initial, []) [InputChange ''m'', FetchResolved 0 [morty], Click 0, InputChange ''r'',
     FetchResolved 0 [rick, morty, summer], KeyDown ArrowDown, InputChange ''ri'',
     FetchResolved 0 [rick]] = Some (stale_highlight_morty, [])"
  by (simp add: model_defs sample_defs)

lemma run_failed_after_rick:
  "run engine (initial, []) [InputChange ''r'', FetchResolved 0 [rick], InputChange ''rx'',
     FetchRejected 0] = Some (failed_after_rick, [])"
  by (simp add: model_defs sample_defs)

lemma run_two_listed:
  "run engine (initial, []) [InputChange ''r'', FetchResolved 0 [rick, morty]] = Some (two_listed, [])"
  by (simp add: model_defs sample_defs)

lemma run_rick_selected:
  "run engine (initial, []) [InputChange ''r'', FetchResolved 0 [rick], Click 0] =
     Some (rick_selected, [])"
  by (simp add: model_defs sample_defs)

lemma run_rick_listed_loading:
  "run engine (initial, []) [InputChange ''r'', FetchResolved 0 [rick], InputChange ''rx''] =
     Some (rick_listed_loading, [[]])"
  by (simp add: model_defs sample_defs)

lemma run_second_highlighted_loading:
  "run engine (initial, []) [InputChange ''r'', FetchResolved 0 [rick, morty],
     KeyDown ArrowDown, InputChange ''ri''] = Some (second_highlighted_loading, [[]])"
  by (simp add: model_defs sample_defs)

lemma run_nan_highlight:
  "run engine (initial, []) [KeyDown ArrowDown, InputChange ''r'', FetchResolved 0 [rick]] =
     Some (nan_highlight, [])"
  by (simp add: model_defs sample_defs)

section \<open>The engine of the sample runs\<close>

text \<open>What the component does with the engine \<open>plain_only\<close> it does with every engine.\<close>

lemma render_ok_plain_only: "render_ok plain_only s \<Longrightarrow> render_ok engine s"
  by (auto simp: render_ok_def highlightQuery_returns_def plain_only_def list_all_iff
           split: if_splits)

lemma shown_plain_only: "shown plain_only c = Some c' \<Longrightarrow> shown engine c = Some c'"
  by (auto simp: shown_def split: if_splits dest: render_ok_plain_only)

lemma rerender_plain_only:
  "rerender plain_only s x p = Some c' \<Longrightarrow> rerender engine s x p = Some c'"
  by (auto simp: rerender_def simp del: useEffect.simps split: if_splits
           dest: render_ok_plain_only shown_plain_only)

lemma step_plain_only:
  assumes "step plain_only c e = Some c'"
  shows "step engine c e = Some c'"
proof -
  obtain s p where c: "c = (s, p)" by (cases c)
  show ?thesis
  proof (cases e)
    case (KeyDown k)
    with assms c show ?thesis
      by (auto simp del: handleKeyDown.simps split: sum.splits js_error.splits
               dest: rerender_plain_only)
  next
    case (Click i)
    with assms c show ?thesis
      by (auto simp del: handleSelectCharacter.simps split: if_splits sum.splits
               dest: rerender_plain_only)
  qed (use assms c in \<open>auto split: if_splits dest: rerender_plain_only shown_plain_only\<close>)
qed

lemma run_plain_only: "run plain_only c es = Some c' \<Longrightarrow> run engine c es = Some c'"
proof (induction es arbitrary: c)
  case Nil
  then show ?case by simp
next
  case (Cons e es)
  from Cons.prems obtain d where d: "step plain_only c e = Some d"
      and r: "run plain_only d es = Some c'"
    by (auto split: option.splits)
  from d have "step engine c e = Some d" by (rule step_plain_only)
  with Cons.IH [OF r] show ?case by simp
qed

lemma reachable_plain_only: "reachable plain_only c \<Longrightarrow> reachable engine c"
  unfolding reachable_def by (blast dest: run_plain_only)

section \<open>Facts about the helpers\<close>

lemma some_id_iff: "some_id xs ch \<longleftrightarrow> id_c ch \<in> id_c ` set xs"
  by (induction xs) (auto simp: some_id_def)

lemma js_rem_nonneg: "0 \<le> a \<Longrightarrow> n \<noteq> 0 \<Longrightarrow> js_rem (Num a) n = Num (a mod int n)"
  by (cases "a = 0") simp_all

lemma uniqueCharacters_filter:
  "uniqueCharacters s =
     filter (\<lambda>ch. id_c ch \<notin> id_c ` set (addedCharacters s)) (selectedCharacters s)"
  by (simp add: uniqueCharacters_def some_id_iff)

section \<open>Per-collection uniqueness\<close>

lemma unique_ids_cong:
  "selectedCharacters s' = selectedCharacters s \<Longrightarrow> addedCharacters s' = addedCharacters s \<Longrightarrow>
   unique_ids s' = unique_ids s"
  by (simp add: unique_ids_def)

lemma shown_Some: "shown engine c = Some c' \<Longrightarrow> c' = c"
  by (simp add: shown_def split: if_splits)

lemma rerender_Some:
  "rerender engine s x p = Some c' \<Longrightarrow> c' = (x, p) \<or> c' = useEffect (x, p)"
  by (auto simp: rerender_def simp del: useEffect.simps split: if_splits dest: shown_Some)

lemma unique_ids_useEffect: "unique_ids (fst (useEffect (x, p))) = unique_ids x"
  by (simp add: unique_ids_def)

lemma unique_ids_rerender:
  "rerender engine s x p = Some c' \<Longrightarrow> unique_ids (fst c') = unique_ids x"
  using unique_ids_useEffect [of x p] by (auto dest!: rerender_Some)

lemma unique_ids_select:
  assumes "unique_ids s" and "handleSelectCharacter x s = Inr s'"
  shows "unique_ids s'"
proof (cases x)
  case None
  with assms show ?thesis by (simp split: if_splits)
next
  case (Some ch)
  with assms show ?thesis
    by (auto simp: unique_ids_def some_id_iff split: if_splits)
qed

lemma unique_ids_remove: "unique_ids s \<Longrightarrow> unique_ids (handleRemoveCharacter i s)"
  by (simp add: unique_ids_def handleRemoveCharacter_def distinct_map_filter)

lemma unique_ids_remove_list: "unique_ids s \<Longrightarrow> unique_ids (handleRemoveCharacterList i s)"
  by (simp add: unique_ids_def handleRemoveCharacterList_def distinct_map_filter)

lemma unique_moved_fresh:
  "id_c ` set (uniqueCharacters s) \<inter> id_c ` set (addedCharacters s) = {}"
  by (auto simp: uniqueCharacters_filter)

lemma unique_ids_add:
  assumes "unique_ids s"
  shows "unique_ids (handleAddCharacters s)"
proof -
  from assms have "distinct (map id_c (uniqueCharacters s))"
    by (simp add: unique_ids_def uniqueCharacters_def distinct_map_filter)
  with assms unique_moved_fresh [of s] show ?thesis
    by (simp add: unique_ids_def handleAddCharacters_def Int_commute)
qed

lemma unique_ids_keydown:
  assumes "unique_ids s" and "handleKeyDown k s = Inr s'"
  shows "unique_ids s'"
proof (cases k)
  case Enter
  with assms show ?thesis
    by (auto split: if_splits dest: unique_ids_select)
qed (use assms in \<open>auto simp: unique_ids_def\<close>)

lemma unique_ids_step:
  assumes "unique_ids (fst c)" and "step engine c e = Some c'"
  shows "unique_ids (fst c')"
proof -
  obtain s p where c: "c = (s, p)" by (cases c)
  with assms have u: "unique_ids s" by simp
  show ?thesis
  proof (cases e)
    case (InputChange v)
    with assms c have "unique_ids (fst c') = unique_ids (handleInputChange v s)"
      by (auto dest: unique_ids_rerender)
    with u show ?thesis by (simp add: unique_ids_def handleInputChange_def)
  next
    case (KeyDown k)
    with assms c u show ?thesis
      by (auto simp del: handleKeyDown.simps split: sum.splits js_error.splits
               dest: unique_ids_keydown unique_ids_rerender)
  next
    case (MouseEnter i)
    with assms c u show ?thesis
      by (auto simp: unique_ids_def handleMouseEnter_def split: if_splits dest!: shown_Some)
  next
    case (Click i)
    with assms c u show ?thesis
      by (auto simp del: handleSelectCharacter.simps split: if_splits sum.splits
               dest: unique_ids_select unique_ids_rerender)
  next
    case AddClick
    with assms c have "unique_ids (fst c') = unique_ids (handleAddCharacters s)"
      by (auto dest: unique_ids_rerender)
    with u show ?thesis by (simp add: unique_ids_add)
  next
    case (RemoveSelected i)
    with assms c have "unique_ids (fst c') = unique_ids (handleRemoveCharacter i s)"
      by (auto split: if_splits dest: unique_ids_rerender)
    with u show ?thesis by (simp add: unique_ids_remove)
  next
    case (RemoveAdded i)
    with assms c u show ?thesis
      by (auto simp: unique_ids_remove_list split: if_splits dest!: shown_Some)
  next
    case (FetchResolved k data)
    with assms c u show ?thesis
      by (auto simp: unique_ids_def fetch_then_def split: if_splits dest!: shown_Some)
  next
    case (FetchRejected k)
    with assms c u show ?thesis
      by (auto simp: unique_ids_def fetch_catch_def split: if_splits dest!: shown_Some)
  qed
qed

lemma unique_ids_run:
  "unique_ids (fst c) \<Longrightarrow> run engine c es = Some c' \<Longrightarrow> unique_ids (fst c')"
proof (induction es arbitrary: c)
  case Nil
  then show ?case by simp
next
  case (Cons e es)
  then show ?case
    by (auto split: option.splits dest: unique_ids_step)
qed

lemma unique_ids_reachable: "reachable engine c \<Longrightarrow> unique_ids (fst c)"
  unfolding reachable_def
  by (auto dest!: unique_ids_run [rotated] simp: unique_ids_def initial_def)

section \<open>Events that leave the highlight index alone\<close>

lemma rerender_highlight_eq:
  "rerender engine s x p = Some (s', p') \<Longrightarrow> highlightedIndex s' = highlightedIndex x"
  by (auto dest!: rerender_Some split: if_splits)

lemma select_highlight:
  "handleSelectCharacter x s = Inr s' \<Longrightarrow> highlightedIndex s' = highlightedIndex s"
  by (cases x) (auto split: if_splits)

lemma step_highlight_frame:
  assumes "step engine (s, p) e = Some (s', p')"
    and "e \<noteq> KeyDown ArrowDown" and "e \<noteq> KeyDown ArrowUp" and "\<forall>j. e \<noteq> MouseEnter j"
  shows "highlightedIndex s' = highlightedIndex s"
proof (cases e)
  case (InputChange v)
  with assms(1) show ?thesis
    by (auto simp: handleInputChange_def dest!: rerender_highlight_eq)
next
  case (KeyDown k)
  show ?thesis
  proof (cases k)
    case Enter
    with KeyDown assms(1) show ?thesis
      by (auto simp del: handleSelectCharacter.simps
               split: if_splits sum.splits js_error.splits
               dest!: select_highlight rerender_highlight_eq)
  next
    case OtherKey
    with KeyDown assms(1) show ?thesis by (auto dest!: rerender_highlight_eq)
  qed (use KeyDown assms in auto)
next
  case (MouseEnter j)
  with assms(4) show ?thesis by simp
next
  case (Click i)
  with assms(1) show ?thesis
    by (auto simp del: handleSelectCharacter.simps split: if_splits sum.splits
             dest!: select_highlight rerender_highlight_eq)
next
  case AddClick
  with assms(1) show ?thesis
    by (auto simp: handleAddCharacters_def split: if_splits dest!: rerender_highlight_eq)
next
  case (RemoveSelected i)
  with assms(1) show ?thesis
    by (auto simp: handleRemoveCharacter_def split: if_splits dest!: rerender_highlight_eq)
next
  case (RemoveAdded i)
  with assms(1) show ?thesis
    by (auto simp: handleRemoveCharacterList_def split: if_splits dest!: shown_Some)
next
  case (FetchResolved k data)
  with assms(1) show ?thesis
    by (auto simp: fetch_then_def split: if_splits dest!: shown_Some)
next
  case (FetchRejected k)
  with assms(1) show ?thesis
    by (auto simp: fetch_catch_def split: if_splits dest!: shown_Some)
qed

section \<open>Fetch success\<close>

text \<open>
  C1 (amended). When a request in flight succeeds, the success callback stores as
  candidate list the returned list without every candidate whose id is in the SelectedSet
  that the request captured when it was issued, in the returned order; the request
  issued by the effect captures the SelectedSet of that moment. AddedSet is not
  consulted. The state with this list is the state after the event whenever its results
  list can be rendered, and no other state follows the event.
\<close>

theorem fetch_success_filters_captured_selection:
  assumes "k < length pending"
  shows "characters (fetch_then (pending ! k) data s) =
           filter (\<lambda>ch. id_c ch \<notin> id_c ` set (pending ! k)) data
       \<and> (\<forall>ch \<in> set (characters (fetch_then (pending ! k) data s)).
             id_c ch \<notin> id_c ` set (pending ! k))
       \<and> (render_ok engine (fetch_then (pending ! k) data s) \<longrightarrow>
             step engine (s, pending) (FetchResolved k data) =
               Some (fetch_then (pending ! k) data s, remove_nth k pending))
       \<and> (\<forall>s' p'. step engine (s, pending) (FetchResolved k data) = Some (s', p') \<longrightarrow>
             s' = fetch_then (pending ! k) data s \<and> p' = remove_nth k pending)
       \<and> (query s \<noteq> [] \<longrightarrow> snd (useEffect (s, pending)) = pending @ [selectedCharacters s])"
proof -
  have stored: "characters (fetch_then (pending ! k) data s) =
      filter (\<lambda>ch. id_c ch \<notin> id_c ` set (pending ! k)) data"
    by (simp add: fetch_then_def some_id_iff)
  have event: "step engine (s, pending) (FetchResolved k data) =
      shown engine (fetch_then (pending ! k) data s, remove_nth k pending)"
    using assms by simp
  from stored have "\<forall>ch \<in> set (characters (fetch_then (pending ! k) data s)).
      id_c ch \<notin> id_c ` set (pending ! k)"
    by simp
  with stored event show ?thesis
    by (auto simp: shown_def)
qed

theorem fetch_success_filters_captured_selection_witness:
  "0 < length [[morty]] \<and> query added_rick_loading \<noteq> []
   \<and> render_ok plain_only (fetch_then [morty] [morty, rick] added_rick_loading)
   \<and> characters (fetch_then [morty] [morty, rick] added_rick_loading) = [rick]
   \<and> step plain_only (added_rick_loading, [[morty]]) (FetchResolved 0 [morty, rick]) =
        Some (fetch_then [morty] [morty, rick] added_rick_loading, [])
   \<and> snd (useEffect (added_rick_loading, [[morty]])) = [[morty], []]"
  using fetch_success_filters_captured_selection
          [of 0 "[[morty]]" "[morty, rick]" added_rick_loading plain_only]
  by (simp add: model_defs sample_defs)

text \<open>
  C1 as stated fails: Rick is in AddedSet, a fetch succeeds with Rick, and Rick is in the
  candidate list.
\<close>

theorem fetch_keeps_added_candidate_counterexample:
  "reachable plain_only (added_rick_loading, [[]])
   \<and> step plain_only (added_rick_loading, [[]]) (FetchResolved 0 [rick]) =
        Some (added_rick_listed, [])
   \<and> rick \<in> set (characters added_rick_listed)
   \<and> id_c rick \<in> id_c ` set (addedCharacters added_rick_listed)"
  using reachableI [OF run_added_rick_loading, of plain_only]
  by (simp add: model_defs sample_defs)

section \<open>The Add action\<close>

text \<open>
  C2 (amended). Let the unique candidates be those of SelectedSet whose id is not in
  AddedSet. If there is one, Add appends them to AddedSet, clears SelectedSet and emits a
  success notice. If there is none (SelectedSet is empty, or all of it has been added
  already), Add emits a failure notice and leaves both collections unchanged.
\<close>

theorem add_moves_or_reports:
  "(uniqueCharacters s \<noteq> [] \<longrightarrow>
       addedCharacters (handleAddCharacters s) = addedCharacters s @ uniqueCharacters s
     \<and> selectedCharacters (handleAddCharacters s) = []
     \<and> toasts (handleAddCharacters s) = toasts s @ [ToastSuccess Basariyla_eklendi])
   \<and> (uniqueCharacters s = [] \<longrightarrow>
       addedCharacters (handleAddCharacters s) = addedCharacters s
     \<and> selectedCharacters (handleAddCharacters s) = selectedCharacters s
     \<and> toasts (handleAddCharacters s) = toasts s @ [ToastError Lutfen_tekrar_deneyiniz])
   \<and> (selectedCharacters s = [] \<longrightarrow> uniqueCharacters s = [])
   \<and> set (uniqueCharacters s) =
       {ch \<in> set (selectedCharacters s). id_c ch \<notin> id_c ` set (addedCharacters s)}"
  by (auto simp: handleAddCharacters_def uniqueCharacters_filter)

theorem add_moves_or_reports_witness:
  "uniqueCharacters rick_selected \<noteq> []
   \<and> addedCharacters (handleAddCharacters rick_selected) = [rick]
   \<and> selectedCharacters (handleAddCharacters rick_selected) = []
   \<and> toasts (handleAddCharacters rick_selected) = [ToastSuccess Basariyla_eklendi]
   \<and> selectedCharacters initial = [] \<and> uniqueCharacters initial = []
   \<and> addedCharacters (handleAddCharacters initial) = []
   \<and> selectedCharacters (handleAddCharacters initial) = []
   \<and> toasts (handleAddCharacters initial) = [ToastError Lutfen_tekrar_deneyiniz]"
  using add_moves_or_reports [of rick_selected] add_moves_or_reports [of initial]
  by (simp add: model_defs sample_defs)

text \<open>
  C2 as stated fails: with Rick in SelectedSet and in AddedSet, Add does not clear
  SelectedSet.
\<close>

theorem add_keeps_selection_counterexample:
  "reachable plain_only (rick_in_both, [])
   \<and> selectedCharacters (handleAddCharacters rick_in_both) = [rick]
   \<and> toasts (handleAddCharacters rick_in_both) =
       [ToastSuccess Basariyla_eklendi, ToastError Lutfen_tekrar_deneyiniz]"
  using reachableI [OF run_rick_in_both, of plain_only]
  by (simp add: model_defs sample_defs)

section \<open>The highlight index\<close>

text \<open>
  Where the highlight index is valid it stays valid: with a non-empty candidate list and
  a highlight index in \<open>[0, len)\<close>, ArrowDown and ArrowUp leave the list as it is and the
  index in \<open>[0, len)\<close>, and hovering the item at a position of the list sets the index to
  that position. No other event writes the highlight index.
\<close>

lemma highlight_stays_in_range:
  "highlightedIndex initial = Num 0
   \<and> (characters s \<noteq> [] \<and> in_range (highlightedIndex s) (length (characters s)) \<longrightarrow>
        (\<exists>t. handleKeyDown ArrowDown s = Inr t \<and> characters t = characters s
              \<and> in_range (highlightedIndex t) (length (characters t)))
      \<and> (\<exists>t. handleKeyDown ArrowUp s = Inr t \<and> characters t = characters s
              \<and> in_range (highlightedIndex t) (length (characters t))))
   \<and> (i < length (characters s) \<longrightarrow>
        characters (handleMouseEnter i s) = characters s
      \<and> highlightedIndex (handleMouseEnter i s) = Num (int i)
      \<and> in_range (highlightedIndex (handleMouseEnter i s))
           (length (characters (handleMouseEnter i s))))
   \<and> (step engine (s, p) e = Some (s', p') \<and> e \<noteq> KeyDown ArrowDown \<and> e \<noteq> KeyDown ArrowUp
        \<and> (\<forall>j. e \<noteq> MouseEnter j) \<longrightarrow>
        highlightedIndex s' = highlightedIndex s)"
proof -
  have arrows: "in_range (js_rem (js_add (highlightedIndex s) 1) (length (characters s)))
        (length (characters s))
      \<and> in_range (if highlightedIndex s = Num 0
          then Num (int (length (characters s)) - 1) else js_add (highlightedIndex s) (- 1))
        (length (characters s))"
    if ne: "characters s \<noteq> []" and r: "in_range (highlightedIndex s) (length (characters s))"
  proof -
    from r obtain a where a: "highlightedIndex s = Num a" "0 \<le> a"
        "a < int (length (characters s))"
      by (cases "highlightedIndex s") auto
    from ne have n: "length (characters s) \<noteq> 0" by simp
    from a n have "in_range (js_rem (js_add (highlightedIndex s) 1) (length (characters s)))
        (length (characters s))"
      by (simp add: js_rem_nonneg del: js_rem.simps)
    moreover from a n have "in_range (if highlightedIndex s = Num 0
          then Num (int (length (characters s)) - 1) else js_add (highlightedIndex s) (- 1))
        (length (characters s))"
      by auto
    ultimately show ?thesis by simp
  qed
  have frame: "highlightedIndex s' = highlightedIndex s"
    if "step engine (s, p) e = Some (s', p')" "e \<noteq> KeyDown ArrowDown" "e \<noteq> KeyDown ArrowUp"
      "\<forall>j. e \<noteq> MouseEnter j"
    using that by (rule step_highlight_frame)
  from arrows frame show ?thesis
    by (simp add: initial_def handleMouseEnter_def)
qed

text \<open>
  C3, evaluated on a reachable configuration: a list of two is shown, its second entry
  is highlighted and the next query is in flight. The fetch succeeds with a list of one;
  the candidate list is replaced and the highlight index is still 1, outside the list.
\<close>

theorem highlight_not_reset:
  "reachable engine (second_highlighted_loading, [[]])
   \<and> step engine (second_highlighted_loading, [[]]) (FetchResolved 0 [rick]) =
        Some (stale_highlight, [])
   \<and> characters stale_highlight = [rick]
   \<and> highlightedIndex stale_highlight = Num 1
   \<and> \<not> in_range (highlightedIndex stale_highlight) (length (characters stale_highlight))"
  using reachableI [OF run_second_highlighted_loading, of engine]
  by (simp add: model_defs sample_defs)

text \<open>
  C4, evaluated on the initial state, whose candidate list is empty: ArrowDown sets the
  highlight index to \<open>NaN\<close> and ArrowUp sets it to \<open>-1\<close>.
\<close>

theorem arrow_keys_on_empty_list:
  "characters initial = []
   \<and> handleKeyDown ArrowDown initial = Inr (initial\<lparr>highlightedIndex := NaN\<rparr>)
   \<and> handleKeyDown ArrowUp initial = Inr (initial\<lparr>highlightedIndex := Num (- 1)\<rparr>)
   \<and> initial\<lparr>highlightedIndex := NaN\<rparr> \<noteq> initial
   \<and> initial\<lparr>highlightedIndex := Num (- 1)\<rparr> \<noteq> initial"
  by (simp add: initial_def)

section \<open>Fetch failure\<close>

text \<open>
  C5 (amended). When a request in flight fails, the error message is held and the loading
  flag is cleared; the stored candidate list is left as it was, and the results list is
  not rendered while the message is held.
\<close>

theorem fetch_failure_holds_message:
  assumes "k < length pending"
  shows "\<exists>s'. step engine (s, pending) (FetchRejected k) = Some (s', remove_nth k pending)
           \<and> error s' = Some ''Error fetching characters''
           \<and> loading s' = False
           \<and> characters s' = characters s
           \<and> \<not> results_visible s'"
  using assms by (simp add: fetch_catch_def results_visible_def shown_def render_ok_def)

theorem fetch_failure_holds_message_witness:
  "0 < length [[]::character list]
   \<and> (\<exists>s'. step plain_only (rick_listed_loading, [[]]) (FetchRejected 0) =
              Some (s', remove_nth 0 [[]])
           \<and> error s' = Some ''Error fetching characters''
           \<and> loading s' = False
           \<and> characters s' = characters rick_listed_loading
           \<and> \<not> results_visible s')"
  using fetch_failure_holds_message [of 0 "[[]]" plain_only rick_listed_loading]
  by simp

text \<open>
  C5 as stated fails: a query has answered with Rick, the next request fails, and Rick is
  still in the candidate list.
\<close>

theorem fetch_failure_keeps_list_counterexample:
  "reachable plain_only (rick_listed_loading, [[]])
   \<and> step plain_only (rick_listed_loading, [[]]) (FetchRejected 0) =
        Some (failed_after_rick, [])
   \<and> error failed_after_rick = Some ''Error fetching characters''
   \<and> characters failed_after_rick = [rick]"
  using reachableI [OF run_rick_listed_loading, of plain_only]
  by (simp add: model_defs sample_defs)

section \<open>Committing a candidate\<close>

text \<open>
  Committing a candidate that is there: a click on a rendered item, or Enter with the
  highlight index inside the list. The query and the candidate list are emptied, and the
  candidate is appended to SelectedSet unless its id is there already.
\<close>

lemma select_commits:
  "handleSelectCharacter (Some ch) s = Inr s' \<Longrightarrow>
     query s' = [] \<and> characters s' = []
     \<and> selectedCharacters s' =
         (if id_c ch \<in> id_c ` set (selectedCharacters s) then selectedCharacters s
          else selectedCharacters s @ [ch])
     \<and> addedCharacters s' = addedCharacters s"
  by (auto simp: some_id_iff)

lemma enter_commits_in_range:
  assumes "characters s \<noteq> []" and "highlightedIndex s = Num (int i)"
    and "i < length (characters s)"
  shows "handleKeyDown Enter s = handleSelectCharacter (Some (characters s ! i)) s"
  using assms by simp

lemma click_commits:
  assumes "results_visible s" and "i < length (characters s)"
  shows "\<exists>s' p'. step engine (s, pending) (Click i) = Some (s', p')
           \<and> query s' = [] \<and> characters s' = []
           \<and> selectedCharacters s' =
               (if id_c (characters s ! i) \<in> id_c ` set (selectedCharacters s)
                then selectedCharacters s else selectedCharacters s @ [characters s ! i])"
  using assms
  by (auto simp: rerender_def shown_def render_ok_def results_visible_def some_id_iff)

text \<open>
  C6, evaluated where Enter does not commit: the candidate list has one entry and the
  highlight index is 1. With no selected character, \<open>undefined\<close> is stored and the
  component is unmounted by the next render; with Morty selected, the handler raises and
  the query and the candidate list stay as they are.
\<close>

theorem enter_with_stale_highlight:
  "reachable engine (stale_highlight, [])
   \<and> characters stale_highlight = [rick]
   \<and> handleKeyDown Enter stale_highlight = Inl RenderTypeError
   \<and> step engine (stale_highlight, []) (KeyDown Enter) = None
   \<and> reachable engine (stale_highlight_morty, [])
   \<and> characters stale_highlight_morty = [rick]
   \<and> handleKeyDown Enter stale_highlight_morty = Inl HandlerTypeError
   \<and> step engine (stale_highlight_morty, []) (KeyDown Enter) = Some (stale_highlight_morty, [])
   \<and> query stale_highlight_morty = ''ri''"
  using reachableI [OF run_stale_highlight, of engine]
    reachableI [OF run_stale_highlight_morty, of engine]
  by (simp add: stale_highlight_def stale_highlight_morty_def)

section \<open>SelectedSet and AddedSet\<close>

text \<open>
  C7 (amended). In every reachable state, no two entries of SelectedSet have the same id
  and no two entries of AddedSet have the same id, and the candidates that Add would move
  have ids that are not in AddedSet. (The two collections can share an id.)
\<close>

theorem collections_unique_by_id:
  assumes "reachable engine (s, pending)"
  shows "distinct (map id_c (selectedCharacters s))
       \<and> distinct (map id_c (addedCharacters s))
       \<and> id_c ` set (uniqueCharacters s) \<inter> id_c ` set (addedCharacters s) = {}"
  using unique_ids_reachable [OF assms] unique_moved_fresh [of s]
  by (simp add: unique_ids_def)

theorem collections_unique_by_id_witness:
  "reachable plain_only (rick_in_both, [])
   \<and> distinct (map id_c (selectedCharacters rick_in_both))
   \<and> distinct (map id_c (addedCharacters rick_in_both))
   \<and> id_c ` set (uniqueCharacters rick_in_both) \<inter> id_c ` set (addedCharacters rick_in_both) = {}"
  using collections_unique_by_id [OF reachableI [OF run_rick_in_both, of plain_only]]
    reachableI [OF run_rick_in_both, of plain_only]
  by simp

text \<open>
  C7 as stated fails: Rick is added, fetched again, and picked again; his id is in
  SelectedSet and in AddedSet.
\<close>

theorem selected_and_added_overlap_counterexample:
  "reachable plain_only (rick_in_both, [])
   \<and> id_c rick \<in> id_c ` set (selectedCharacters rick_in_both)
                  \<inter> id_c ` set (addedCharacters rick_in_both)"
  using reachableI [OF run_rick_in_both, of plain_only]
  by (simp add: rick_in_both_def)

section \<open>Arrow navigation\<close>

text \<open>
  Navigation from a position of the list. On a non-empty candidate list of length
  \<open>len\<close>: ArrowUp at index 0 moves the highlight to \<open>len - 1\<close>, ArrowDown at \<open>len - 1\<close>
  moves it to 0; at an index \<open>i\<close> of the list below \<open>len - 1\<close> ArrowDown moves it to
  \<open>i + 1\<close>, and at an index \<open>i\<close> other than 0 ArrowUp moves it to \<open>i - 1\<close>.
\<close>

lemma arrow_navigation_wraps:
  assumes "characters s \<noteq> []"
  shows "(highlightedIndex s = Num 0 \<longrightarrow>
            handleKeyDown ArrowUp s =
              Inr (s\<lparr>highlightedIndex := Num (int (length (characters s)) - 1)\<rparr>))
       \<and> (highlightedIndex s = Num (int (length (characters s)) - 1) \<longrightarrow>
            handleKeyDown ArrowDown s = Inr (s\<lparr>highlightedIndex := Num 0\<rparr>))
       \<and> (highlightedIndex s = Num i \<and> 0 \<le> i \<and> i < int (length (characters s)) - 1 \<longrightarrow>
            handleKeyDown ArrowDown s = Inr (s\<lparr>highlightedIndex := Num (i + 1)\<rparr>))
       \<and> (highlightedIndex s = Num i \<and> i \<noteq> 0 \<longrightarrow>
            handleKeyDown ArrowUp s = Inr (s\<lparr>highlightedIndex := Num (i - 1)\<rparr>))"
proof -
  from assms have n: "length (characters s) \<noteq> 0" by simp
  have wrap: "js_rem (Num (int (length (characters s)) - 1 + 1)) (length (characters s)) = Num 0"
    using n by (simp add: js_rem_nonneg del: js_rem.simps)
  have adv: "js_rem (Num (i + 1)) (length (characters s)) = Num (i + 1)"
    if "0 \<le> i" "i < int (length (characters s)) - 1"
    using that n by (simp add: js_rem_nonneg del: js_rem.simps)
  from wrap adv show ?thesis
    by (auto simp del: js_rem.simps)
qed

text \<open>
  C8, evaluated on two reachable states whose candidate list has one entry. With the
  highlight index 1, left by a longer list, ArrowDown moves it to 0 and not to 2. With
  the highlight index \<open>NaN\<close>, left by ArrowDown on the empty list, ArrowDown and ArrowUp
  leave it \<open>NaN\<close>.
\<close>

theorem arrows_on_invalid_index:
  "reachable engine (stale_highlight, [])
   \<and> characters stale_highlight = [rick]
   \<and> highlightedIndex stale_highlight = Num 1
   \<and> handleKeyDown ArrowDown stale_highlight = Inr (stale_highlight\<lparr>highlightedIndex := Num 0\<rparr>)
   \<and> reachable engine (nan_highlight, [])
   \<and> characters nan_highlight = [rick]
   \<and> highlightedIndex nan_highlight = NaN
   \<and> handleKeyDown ArrowDown nan_highlight = Inr nan_highlight
   \<and> handleKeyDown ArrowUp nan_highlight = Inr nan_highlight"
  using reachableI [OF run_stale_highlight, of engine]
    reachableI [OF run_nan_highlight, of engine]
  by (simp add: stale_highlight_def nan_highlight_def)

section \<open>The query fetcher\<close>

text \<open>
  C9 (amended). The two fetchers agree. The fetcher raises exactly when the request
  fails, the body is not JSON, or the body is the JSON value \<open>null\<close>. For a body that is
  an object it returns the member \<open>results\<close> when that is present and truthy, and the
  empty sequence when it is absent or falsy; for any other body but \<open>null\<close> it returns
  the empty sequence.
\<close>

theorem fetcher_contract:
  "fetchCharacters net q = fetchDataHelper net q
   \<and> ((\<exists>e. fetchDataHelper net q = Inl e) \<longleftrightarrow>
        net (request_url q) = NetworkFailure \<or> net (request_url q) = InvalidJson
        \<or> net (request_url q) = Body JNull)
   \<and> (net (request_url q) = Body (JObject kvs) \<longrightarrow>
        fetchDataHelper net q =
          Inr (case map_of (rev kvs) ''results'' of
                 None \<Rightarrow> JArray []
               | Some r \<Rightarrow> if truthy r then r else JArray []))
   \<and> (net (request_url q) = Body d \<and> d \<noteq> JNull \<and> (\<forall>kvs. d \<noteq> JObject kvs) \<longrightarrow>
        fetchDataHelper net q = Inr (JArray []))"
proof (cases "net (request_url q)")
  case NetworkFailure
  then show ?thesis by (simp add: fetchCharacters_def fetchDataHelper_def)
next
  case InvalidJson
  then show ?thesis by (simp add: fetchCharacters_def fetchDataHelper_def)
next
  case (Body b)
  then show ?thesis
    by (cases b) (auto simp: fetchCharacters_def fetchDataHelper_def split: option.splits)
qed

theorem fetcher_contract_witness:
  "answers (Body (JObject [(''results'', JArray [JNum 1])])) (request_url ''rick'') =
      Body (JObject [(''results'', JArray [JNum 1])])
   \<and> fetchDataHelper (answers (Body (JObject [(''results'', JArray [JNum 1])]))) ''rick'' =
      Inr (JArray [JNum 1])
   \<and> fetchDataHelper (answers (Body (JObject [(''error'', JString ''none'')]))) ''rick'' =
      Inr (JArray [])
   \<and> answers (Body (JString ''x'')) (request_url ''rick'') = Body (JString ''x'')
   \<and> fetchDataHelper (answers (Body (JString ''x''))) ''rick'' = Inr (JArray [])"
  using fetcher_contract [of "answers (Body (JObject [(''results'', JArray [JNum 1])]))" "''rick''"
      "[(''results'', JArray [JNum 1])]" "JString ''x''"]
    fetcher_contract [of "answers (Body (JObject [(''error'', JString ''none'')]))" "''rick''"
      "[(''error'', JString ''none'')]" "JString ''x''"]
    fetcher_contract [of "answers (Body (JString ''x''))" "''rick''" "[]" "JString ''x''"]
  by (simp add: answers_def)

text \<open>
  C9 as stated fails: the request succeeds and the body \<open>null\<close> parses, and the fetcher
  raises.
\<close>

theorem fetcher_null_body_counterexample:
  "answers (Body JNull) (request_url ''rick'') = Body JNull
   \<and> fetchDataHelper (answers (Body JNull)) ''rick'' = Inl NullPropertyTypeError
   \<and> fetchCharacters (answers (Body JNull)) ''rick'' = Inl NullPropertyTypeError"
  by (simp add: answers_def fetchDataHelper_def fetchCharacters_def)

section \<open>Order of AddedSet\<close>

text \<open>
  C10. Add yields the old AddedSet followed by the candidates of SelectedSet whose id is
  not in AddedSet, in their SelectedSet order; removing an id from AddedSet keeps the
  other entries in their order.
\<close>

theorem added_keeps_insertion_order:
  "addedCharacters (handleAddCharacters s) =
     addedCharacters s
       @ filter (\<lambda>ch. id_c ch \<notin> id_c ` set (addedCharacters s)) (selectedCharacters s)
   \<and> addedCharacters (handleRemoveCharacterList i s) =
       filter (\<lambda>c. id_c c \<noteq> i) (addedCharacters s)
   \<and> subseq (addedCharacters (handleRemoveCharacterList i s)) (addedCharacters s)"
  by (simp add: handleAddCharacters_def handleRemoveCharacterList_def
        uniqueCharacters_filter [symmetric])

theorem added_keeps_insertion_order_witness:
  "addedCharacters (handleAddCharacters rick_selected) = [rick]
   \<and> addedCharacters (handleRemoveCharacterList 1 rick_in_both) = []
   \<and> subseq (addedCharacters (handleRemoveCharacterList 1 rick_in_both))
        (addedCharacters rick_in_both)"
  using added_keeps_insertion_order [of rick_selected 1]
    added_keeps_insertion_order [of rick_in_both 1]
  by (simp add: sample_defs)

end
